theory Spec2Isabelle
  imports Complex_Main
begin

section \<open>Errors\<close>

text \<open>
  The exceptions that the modelled code can raise.  \<open>IOError\<close> carries the \<open>errno\<close>
  attribute (which Python allows to be \<open>None\<close>); \<open>HTTPException\<close> carries the status
  code of a werkzeug HTTP exception (\<open>NotFound\<close> is \<open>HTTPException 404\<close>).
\<close>

datatype error =
    InvalidConfigError string
  | IOError "int option"
  | HTTPException nat
  | ValueError
  | IndexError
  | TypeError
  | ZeroDivisionError
  | RuntimeError

section \<open>Gridded data: \<open>data/statistics.py\<close>\<close>

subsection \<open>Arrays\<close>

text \<open>
  An element of a float array is a number or \<open>nan\<close>.  Numbers are real numbers here:
  rounding and the infinities of floating-point arithmetic are not modelled.
\<close>

datatype cell = Number real | Nan

text \<open>
  What iterating or indexing a numpy array gives: \<open>Scalar c\<close> is a numpy scalar, \<open>Array s xs\<close>
  is an array of at least one dimension whose items along the first axis are \<open>xs\<close>, each item
  of shape \<open>s\<close>.  The item shape is stored, as numpy stores the shape, so that an array with
  an axis of length 0 keeps its other axes: \<open>Array [4] []\<close> has shape \<open>(0, 4)\<close>.
  Zero-dimensional arrays (distinct from scalars in numpy) are not values of this type.
\<close>

datatype ndarray = Scalar cell | Array "nat list" "ndarray list"

fun shape :: "ndarray \<Rightarrow> nat list" where
  "shape (Scalar c) = []"
| "shape (Array s xs) = length xs # s"

definition ndim :: "ndarray \<Rightarrow> nat" where
  "ndim a = length (shape a)"

text \<open>numpy arrays are rectangular: every item has the item shape, recursively.\<close>

fun rectangular :: "ndarray \<Rightarrow> bool" where
  "rectangular (Scalar c) = True"
| "rectangular (Array s xs) = list_all (\<lambda>x. shape x = s \<and> rectangular x) xs"

subsection \<open>\<open>sum_table\<close>, \<open>mean\<close>, \<open>variance\<close>\<close>

text \<open>
  \<open>sum_table\<close>: an \<open>np.ndarray\<close> is iterated and the sums and counts of its items are
  accumulated from \<open>total = 0\<close>, \<open>num_valid_elems = 0\<close>; anything else is a single number,
  which counts unless it is \<open>nan\<close> (the test \<open>table is not None\<close> is always true for an
  element of a float array).
\<close>

fun sum_table :: "ndarray \<Rightarrow> (real \<Rightarrow> real) \<Rightarrow> real \<times> nat" where
  "sum_table (Array s xs) modifier =
     fold (\<lambda>subarray (total, num_valid_elems).
             (case sum_table subarray modifier of
                (sub_total, sub_valid_cells) \<Rightarrow>
                  (total + sub_total, num_valid_elems + sub_valid_cells)))
          xs (0, 0)"
| "sum_table (Scalar (Number x)) modifier = (modifier x, 1)"
| "sum_table (Scalar Nan) modifier = (0, 0)"

text \<open>Python's \<open>/\<close> on a sum and an integer count: a zero count raises.\<close>

definition py_truediv :: "real \<Rightarrow> nat \<Rightarrow> error + real" where
  "py_truediv a n = (if n = 0 then Inl ZeroDivisionError else Inr (a / real n))"

text \<open>\<open>mean\<close> and \<open>variance\<close> catch \<open>ZeroDivisionError\<close>, and only that, and return \<open>nan\<close>.\<close>

definition mean :: "ndarray \<Rightarrow> error + cell" where
  "mean data =
     (case sum_table data (\<lambda>x. x) of
        (sum_cells, num_valid_cells) \<Rightarrow>
          (case py_truediv sum_cells num_valid_cells of
             Inr smpl_mean \<Rightarrow> Inr (Number smpl_mean)
           | Inl ZeroDivisionError \<Rightarrow> Inr Nan
           | Inl e \<Rightarrow> Inl e))"

definition variance :: "ndarray \<Rightarrow> error + cell" where
  "variance data =
     (case sum_table data (\<lambda>x. x ^ 2) of
        (sum_sqrs, num_valid_cells) \<Rightarrow>
          (case py_truediv sum_sqrs num_valid_cells of
             Inr smpl_variance \<Rightarrow> Inr (Number smpl_variance)
           | Inl ZeroDivisionError \<Rightarrow> Inr Nan
           | Inl e \<Rightarrow> Inl e))"

subsection \<open>\<open>convert_grid_data_to_table\<close>\<close>

text \<open>Running a list of fallible computations in order, stopping at the first error.\<close>

fun sequence :: "(error + 'a) list \<Rightarrow> error + 'a list" where
  "sequence [] = Inr []"
| "sequence (Inl e # rs) = Inl e"
| "sequence (Inr x # rs) = (case sequence rs of Inl e \<Rightarrow> Inl e | Inr xs \<Rightarrow> Inr (x # xs))"

text \<open>
  \<open>data[time_seg, lat_band, :]\<close>.  numpy raises \<open>IndexError\<close> for an index out of range; in
  the loops of \<open>convert_grid_data_to_table\<close> the indices come from \<open>data.shape\<close> and are in
  range for every rectangular array.
\<close>

fun index2 :: "ndarray \<Rightarrow> nat \<Rightarrow> nat \<Rightarrow> error + ndarray" where
  "index2 (Array s xs) t l =
     (if t < length xs then
        (case xs ! t of
           Array s' ys \<Rightarrow> if l < length ys then Inr (ys ! l) else Inl IndexError
         | Scalar c \<Rightarrow> Inl IndexError)
      else Inl IndexError)"
| "index2 (Scalar c) t l = Inl IndexError"

text \<open>
  \<open>np.array(table)\<close> for a list of rows of numbers.  The empty list gives the empty
  one-dimensional array, of shape \<open>(0,)\<close>; rows of one length \<open>n\<close> give shape
  \<open>(len(table), n)\<close>; rows of different lengths are refused.
\<close>

definition np_array :: "cell list list \<Rightarrow> error + ndarray" where
  "np_array table =
     (case table of
        [] \<Rightarrow> Inr (Array [] [])
      | row # rows \<Rightarrow>
          if list_all (\<lambda>r. length r = length row) rows
          then Inr (Array [length row] (map (\<lambda>r. Array [] (map Scalar r)) table))
          else Inl ValueError)"

text \<open>
  \<open>np.hstack\<close> of two arrays: scalars become one-element arrays, one-dimensional arrays
  are joined along axis 0, all others along axis 1; shapes that do not fit raise
  \<open>ValueError\<close>.
\<close>

fun atleast_1d :: "ndarray \<Rightarrow> ndarray" where
  "atleast_1d (Scalar c) = Array [] [Scalar c]"
| "atleast_1d (Array s xs) = Array s xs"

fun concatenate0 :: "ndarray \<Rightarrow> ndarray \<Rightarrow> error + ndarray" where
  "concatenate0 (Array s xs) (Array s' ys) =
     (if s = s' then Inr (Array s (xs @ ys)) else Inl ValueError)"
| "concatenate0 a b = Inl ValueError"

fun concatenate1 :: "ndarray \<Rightarrow> ndarray \<Rightarrow> error + ndarray" where
  "concatenate1 (Array (n # r) xs) (Array (m # r') ys) =
     (if r = r' \<and> length xs = length ys then
        (case sequence (map (\<lambda>(x, y). concatenate0 x y) (zip xs ys)) of
           Inl e \<Rightarrow> Inl e
         | Inr items \<Rightarrow> Inr (Array ((n + m) # r) items))
      else Inl ValueError)"
| "concatenate1 a b = Inl ValueError"

definition hstack :: "ndarray \<Rightarrow> ndarray \<Rightarrow> error + ndarray" where
  "hstack a b =
     (if ndim (atleast_1d a) = 1 then concatenate0 (atleast_1d a) (atleast_1d b)
      else concatenate1 (atleast_1d a) (atleast_1d b))"

text \<open>One row of the table: the averages of latitude band \<open>lat_band\<close> at every time segment.\<close>

definition table_row :: "ndarray \<Rightarrow> nat \<Rightarrow> nat \<Rightarrow> error + cell list" where
  "table_row data n_time lat_band =
     sequence (map (\<lambda>time_seg.
                 case index2 data time_seg lat_band of
                   Inl e \<Rightarrow> Inl e
                 | Inr data_slice \<Rightarrow> mean data_slice)
               [0..<n_time])"

text \<open>
  The loop of the last branch: \<open>table = np.hstack((table, convert(row)))\<close> for each
  further item, the first error ending it.
\<close>

definition hstack_step :: "error + ndarray \<Rightarrow> error + ndarray \<Rightarrow> error + ndarray" where
  "hstack_step converted acc =
     (case acc of
        Inl e \<Rightarrow> Inl e
      | Inr table \<Rightarrow> (case converted of Inl e \<Rightarrow> Inl e | Inr t \<Rightarrow> hstack table t))"

text \<open>
  \<open>convert_grid_data_to_table\<close>.  \<open>data.ndim\<close> is one more than the length of the item
  shape.  In the last branch \<open>data[0]\<close> raises \<open>IndexError\<close> on a scalar and on an array
  whose first axis is empty.
\<close>

fun convert_grid_data_to_table :: "ndarray \<Rightarrow> error + ndarray" where
  "convert_grid_data_to_table (Scalar c) = Inl IndexError"
| "convert_grid_data_to_table (Array s xs) =
     (if Suc (length s) = 2 then Inr (Array s xs)
      else if Suc (length s) = 3 then
        (case sequence (map (table_row (Array s xs) (length xs)) [0..<hd s]) of
           Inl e \<Rightarrow> Inl e
         | Inr table \<Rightarrow> np_array table)
      else
        (case xs of
           [] \<Rightarrow> Inl IndexError
         | first # rest \<Rightarrow>
             fold hstack_step (map convert_grid_data_to_table rest)
               (convert_grid_data_to_table first)))"

subsection \<open>The mean of the valid values, as the specification words it\<close>

text \<open>The valid (non-\<open>nan\<close>) values of a one-dimensional slice, and their mean.\<close>

fun valid_values :: "ndarray list \<Rightarrow> real list" where
  "valid_values [] = []"
| "valid_values (Scalar (Number x) # xs) = x # valid_values xs"
| "valid_values (x # xs) = valid_values xs"

definition mean_of_valid :: "ndarray list \<Rightarrow> cell" where
  "mean_of_valid xs =
     (if valid_values xs = [] then Nan
      else Number (sum_list (valid_values xs) / real (length (valid_values xs))))"

text \<open>The mean of the valid values of \<open>data[j, i, :]\<close>.\<close>

definition slice_mean :: "ndarray \<Rightarrow> nat \<Rightarrow> nat \<Rightarrow> cell" where
  "slice_mean data j i =
     (case index2 data j i of Inr (Array s cells) \<Rightarrow> mean_of_valid cells | _ \<Rightarrow> Nan)"

text \<open>An array without a valid numeric element: every element is \<open>nan\<close>, or there is none.\<close>

fun no_valid_element :: "ndarray \<Rightarrow> bool" where
  "no_valid_element (Scalar c) = (c = Nan)"
| "no_valid_element (Array s xs) = list_all no_valid_element xs"

section \<open>The artifact cache and the endpoints: \<open>api.py\<close>\<close>

subsection \<open>The durable store, configurations and the state of the server\<close>

type_synonym path = string

datatype node = Dir | File

text \<open>The file system: what is found at a path, if anything.  Paths are compared as strings.\<close>

type_synonym filesystem = "path \<Rightarrow> node option"

definition path_exists :: "filesystem \<Rightarrow> path \<Rightarrow> bool" where
  "path_exists fsys p = (fsys p \<noteq> None)"

definition is_file :: "filesystem \<Rightarrow> path \<Rightarrow> bool" where
  "is_file fsys p = (fsys p = Some File)"

text \<open>\<open>os.path.join\<close> (POSIX): an absolute component discards what precedes it.\<close>

definition path_join :: "path \<Rightarrow> path \<Rightarrow> path" where
  "path_join a b =
     (if b \<noteq> [] \<and> hd b = CHR ''/'' then b
      else if a = [] \<or> last a = CHR ''/'' then a @ b
      else a @ ''/'' @ b)"

text \<open>
  What the endpoints read from an \<open>ArrheniusConfig\<close> (its class is not among the sources):
  \<open>run_id\<close> is \<open>str(config.run_id())\<close>, \<open>colorbar\<close> the two bounds of \<open>config.colorbar()\<close>
  as \<open>str.format\<close> prints them, \<open>segments\<close> the number of time segments of the model
  output.
\<close>

record config =
  run_id :: string
  colorbar :: "string \<times> string"
  segments :: nat

text \<open>
  The collaborators that \<open>api.py\<close> imports and that are not among the sources are
  parameters: the root of the output tree (\<open>OUTPUT_FULL_PATH\<close>) and the simulation runner
  (\<open>ModelRun(config, output_center).run_model()\<close>), which changes the file system and
  either returns or raises.
\<close>

record env =
  OUTPUT_FULL_PATH :: path
  run_model :: "config \<Rightarrow> filesystem \<Rightarrow> filesystem \<times> error option"

text \<open>
  The operations on image and archive artifacts, recorded with the state of the guard at the
  moment each of them starts.
\<close>

datatype img_op = CheckArchive | EnsureImages | MakeArchive

text \<open>
  The state of the server: the file system, the module-level lock \<open>img_fs_lock\<close> (\<open>True\<close>
  when it is held), and two history variables that the code does not have: the number of
  calls of \<open>run_model\<close> so far, and the log of image and archive operations.
\<close>

record state =
  fs :: filesystem
  img_fs_lock :: bool
  model_runs :: nat
  img_fs_log :: "(img_op \<times> bool) list"

text \<open>
  How a call ends: it returns a value, raises, or never returns because it waits for a lock
  that nobody releases.
\<close>

datatype 'a outcome = Returns 'a | Raises error | Blocks

definition note_img_op :: "img_op \<Rightarrow> state \<Rightarrow> state" where
  "note_img_op operation s = s\<lparr>img_fs_log := img_fs_log s @ [(operation, img_fs_lock s)]\<rparr>"

text \<open>\<open>Lock.acquire()\<close> waits while the lock is held; \<open>Lock.release()\<close> of a free lock raises.\<close>

definition acquire :: "state \<Rightarrow> state option" where
  "acquire s = (if img_fs_lock s then None else Some (s\<lparr>img_fs_lock := True\<rparr>))"

definition release :: "state \<Rightarrow> error + state" where
  "release s = (if img_fs_lock s then Inr (s\<lparr>img_fs_lock := False\<rparr>) else Inl RuntimeError)"

subsection \<open>\<open>ensure_model_results\<close>\<close>

definition ensure_model_results :: "env \<Rightarrow> config \<Rightarrow> state \<Rightarrow> (path \<times> bool) outcome \<times> state" where
  "ensure_model_results e config s =
     (let dataset_parent = path_join (OUTPUT_FULL_PATH e) (run_id config) in
      if \<not> path_exists (fs s) dataset_parent then
        (case run_model e config (fs s) of
           (fs', None) \<Rightarrow>
             (Returns (dataset_parent, True), s\<lparr>fs := fs', model_runs := Suc (model_runs s)\<rparr>)
         | (fs', Some err) \<Rightarrow>
             (Raises err, s\<lparr>fs := fs', model_runs := Suc (model_runs s)\<rparr>))
      else (Returns (dataset_parent, False), s))"

subsection \<open>The renderer and the layout of image directories\<close>

text \<open>Python's \<open>str\<close> of an integer.\<close>

fun str_nat :: "nat \<Rightarrow> string" where
  "str_nat n =
     (if n < 10 then [char_of (48 + n)] else str_nat (n div 10) @ [char_of (48 + n mod 10)])"

declare str_nat.simps [simp del]

definition str_int :: "int \<Rightarrow> string" where
  "str_int k = (if k < 0 then ''-'' @ str_nat (nat (- k)) else str_nat (nat k))"

definition scale_suffix_of :: "string \<times> string \<Rightarrow> string" where
  "scale_suffix_of cb = ''['' @ fst cb @ ''x'' @ snd cb @ '']''"

definition mkdir_exist_ok :: "filesystem \<Rightarrow> path \<Rightarrow> filesystem" where
  "mkdir_exist_ok fsys p = (if fsys p = None then fsys(p \<mapsto> Dir) else fsys)"

text \<open>
  Modelled from the spec: \<open>get_image_directory\<close> of \<open>data/display.py\<close> is not among the
  sources.  The persisted layout has, under the directory of a run id, one subdirectory per
  (run id, color-scale) holding per-variable image subdirectories; with \<open>create\<close> the
  directory is made if absent, and that never fails when it exists already.
\<close>

definition get_image_directory ::
  "path \<Rightarrow> string \<Rightarrow> string \<Rightarrow> string \<times> string \<Rightarrow> bool \<Rightarrow> filesystem \<Rightarrow> path \<times> filesystem" where
  "get_image_directory ds_parent rid var_name cb create fsys =
     (let scale_dir = path_join ds_parent (rid @ ''_'' @ scale_suffix_of cb);
          img_dir = path_join scale_dir var_name
      in (img_dir, if create then mkdir_exist_ok (mkdir_exist_ok fsys scale_dir) img_dir else fsys))"

text \<open>
  Modelled from the spec: \<open>image_file_name\<close> of \<open>data/display.py\<close> is not among the
  sources.  An image is keyed by run id, variable name, time segment and color-scale; the
  directory gives the color-scale, the base name the variable and the time segment.
\<close>

definition image_file_name :: "string \<Rightarrow> config \<Rightarrow> string" where
  "image_file_name base_name config = run_id config @ ''_'' @ base_name"

definition image_path :: "path \<Rightarrow> string \<Rightarrow> config \<Rightarrow> int \<Rightarrow> path" where
  "image_path img_dir var_name config k =
     path_join img_dir (image_file_name (var_name @ ''_'' @ str_int k) config @ ''.png'')"

text \<open>
  The images asked for: segment \<open>k\<close>, or, for no time segment, the average (segment 0)
  and every segment of the dataset.
\<close>

definition render_targets :: "int option \<Rightarrow> config \<Rightarrow> int list" where
  "render_targets time_seg config =
     (case time_seg of None \<Rightarrow> map int [0..<Suc (segments config)] | Some k \<Rightarrow> [k])"

text \<open>
  Modelled from the spec: \<open>save_from_dataset\<close> of \<open>data/display.py\<close> (the Renderer) is
  not among the sources.  It requires the dataset, the file named by the run id in the
  directory of the run id, and fails without it, creating nothing.  For a time segment it
  produces that image, segment 0 being the average over all segments; for no time segment it
  produces one image per segment and the average.  An image file that exists already is
  skipped without an error.  The result says whether the renderer did any work at all.
  It never starts a model run.
\<close>

definition save_from_dataset ::
  "path \<Rightarrow> string \<Rightarrow> int option \<Rightarrow> config \<Rightarrow> filesystem \<Rightarrow> error + (bool \<times> filesystem)" where
  "save_from_dataset ds_parent var_name time_seg config fsys =
     (if \<not> is_file fsys (path_join ds_parent (run_id config @ ''.nc'')) then Inl (IOError (Some 2))
      else
        (case get_image_directory ds_parent (run_id config) var_name (colorbar config) True fsys of
           (img_dir, fs1) \<Rightarrow>
             (let targets = render_targets time_seg config;
                  missing = filter (\<lambda>k. \<not> is_file fs1 (image_path img_dir var_name config k)) targets
              in Inr (missing \<noteq> [],
                      fold (\<lambda>k f. f(image_path img_dir var_name config k \<mapsto> File)) missing fs1))))"

subsection \<open>\<open>ensure_image_output\<close>\<close>

definition ensure_image_output ::
  "path \<Rightarrow> string \<Rightarrow> int option \<Rightarrow> config \<Rightarrow> state \<Rightarrow> (path \<times> bool) outcome \<times> state" where
  "ensure_image_output ds_parent var_name time_seg config s =
     (case save_from_dataset ds_parent var_name time_seg config (fs (note_img_op EnsureImages s)) of
        Inl err \<Rightarrow> (Raises err, note_img_op EnsureImages s)
      | Inr (created, fs') \<Rightarrow>
          (Returns (fst (get_image_directory ds_parent (run_id config) var_name (colorbar config)
                           False fs'), created),
           (note_img_op EnsureImages s)\<lparr>fs := fs'\<rparr>))"

subsection \<open>Library calls of the endpoints\<close>

text \<open>
  Python's \<open>int\<close> of a string, a character being a code point below 256: surrounding
  whitespace is dropped, a sign may come first, then decimal digits, single underscores
  allowed between digits; anything else raises \<open>ValueError\<close>.  The whitespace that \<open>int\<close>
  drops is the ASCII whitespace (tab to carriage return, and the space) and, beyond ASCII,
  the Unicode spaces, which it first turns into spaces (U+0085 and U+00A0 here); the
  separators U+001C to U+001F are not dropped.
\<close>

definition is_space :: "char \<Rightarrow> bool" where
  "is_space c =
     (let n = (of_char c :: nat) in (9 \<le> n \<and> n \<le> 13) \<or> n = 32 \<or> n = 133 \<or> n = 160)"

definition is_digit :: "char \<Rightarrow> bool" where
  "is_digit c = (let n = (of_char c :: nat) in 48 \<le> n \<and> n \<le> 57)"

definition digit_value :: "char \<Rightarrow> nat" where
  "digit_value c = of_char c - 48"

definition strip :: "string \<Rightarrow> string" where
  "strip s = rev (dropWhile is_space (rev (dropWhile is_space s)))"

fun digits_value :: "string \<Rightarrow> nat \<Rightarrow> nat option" where
  "digits_value [] acc = Some acc"
| "digits_value [c] acc = (if is_digit c then Some (acc * 10 + digit_value c) else None)"
| "digits_value (c # d # ds) acc =
     (if c = CHR ''_'' then
        (if is_digit d then digits_value ds (acc * 10 + digit_value d) else None)
      else if is_digit c then digits_value (d # ds) (acc * 10 + digit_value c)
      else None)"

definition unsigned_int :: "string \<Rightarrow> error + int" where
  "unsigned_int body =
     (case body of
        [] \<Rightarrow> Inl ValueError
      | c # cs \<Rightarrow>
          if is_digit c then
            (case digits_value cs (digit_value c) of
               Some n \<Rightarrow> Inr (int n)
             | None \<Rightarrow> Inl ValueError)
          else Inl ValueError)"

definition py_int :: "string \<Rightarrow> error + int" where
  "py_int s =
     (case strip s of
        [] \<Rightarrow> Inl ValueError
      | c # cs \<Rightarrow>
          if c = CHR ''-'' then map_sum id uminus (unsigned_int cs)
          else if c = CHR ''+'' then unsigned_int cs
          else unsigned_int (c # cs))"

text \<open>
  Flask's \<open>send_from_directory\<close>: the file name is joined to the directory, a name that
  leaves the directory is refused, and a path that is not a file raises \<open>NotFound\<close>.
  The value is the path of the file that is served.
\<close>

definition send_from_directory :: "path \<Rightarrow> string \<Rightarrow> filesystem \<Rightarrow> error + path" where
  "send_from_directory directory filename fsys =
     (if (filename \<noteq> [] \<and> hd filename = CHR ''/'') \<or> filename = ''..'' \<or> take 3 filename = ''../''
      then Inl (HTTPException 404)
      else if is_file fsys (path_join directory filename)
      then Inr (path_join directory filename)
      else Inl (HTTPException 404))"

text \<open>
  \<open>shutil.make_archive(base_name, 'zip', root_dir)\<close> writes the file \<open>base_name.zip\<close> from
  the directory \<open>root_dir\<close>, which has to exist.
\<close>

definition make_archive :: "path \<Rightarrow> path \<Rightarrow> filesystem \<Rightarrow> error + filesystem" where
  "make_archive base_name root_dir fsys =
     (if fsys root_dir = Some Dir then Inr (fsys(base_name @ ''.zip'' \<mapsto> File))
      else Inl (IOError (Some 2)))"

subsection \<open>The endpoints\<close>

text \<open>
  Each endpoint takes what \<open>from_json_string\<close> made of the request body: a configuration, or
  the error it raised.  A response is the path of the file sent and the status code.
\<close>

definition response_code :: "bool \<Rightarrow> nat" where
  "response_code created = (if created then 201 else 200)"

definition scientific_dataset ::
  "env \<Rightarrow> error + config \<Rightarrow> state \<Rightarrow> (path \<times> nat) outcome \<times> state" where
  "scientific_dataset e body s =
     (case body of
        Inl err \<Rightarrow> (Raises err, s)
      | Inr config \<Rightarrow>
          (case ensure_model_results e config s of
             (Raises err, s1) \<Rightarrow> (Raises err, s1)
           | (Blocks, s1) \<Rightarrow> (Blocks, s1)
           | (Returns (dataset_parent, created), s1) \<Rightarrow>
               (case send_from_directory dataset_parent (run_id config @ ''.nc'') (fs s1) of
                  Inl err \<Rightarrow> (Raises err, s1)
                | Inr sent \<Rightarrow> (Returns (sent, response_code created), s1))))"

text \<open>
  \<open>single_model_data\<close>: the lock is acquired, then the arguments of \<open>ensure_image_output\<close>
  are evaluated (\<open>int(time_seg)\<close> among them) and it is called, then the lock is released.
  There is no \<open>try\<close>: an exception leaves the function at once.
\<close>

definition single_model_data ::
  "env \<Rightarrow> string \<Rightarrow> string \<Rightarrow> error + config \<Rightarrow> state \<Rightarrow> (path \<times> nat) outcome \<times> state" where
  "single_model_data e varname time_seg body s =
     (case body of
        Inl err \<Rightarrow> (Raises err, s)
      | Inr config \<Rightarrow>
          (case ensure_model_results e config s of
             (Raises err, s1) \<Rightarrow> (Raises err, s1)
           | (Blocks, s1) \<Rightarrow> (Blocks, s1)
           | (Returns (parent_dir, model_created), s1) \<Rightarrow>
               (case acquire s1 of
                  None \<Rightarrow> (Blocks, s1)
                | Some s2 \<Rightarrow>
                    (case py_int time_seg of
                       Inl err \<Rightarrow> (Raises err, s2)
                     | Inr k \<Rightarrow>
                         (case ensure_image_output parent_dir varname (Some k) config s2 of
                            (Raises err, s3) \<Rightarrow> (Raises err, s3)
                          | (Blocks, s3) \<Rightarrow> (Blocks, s3)
                          | (Returns (download_path, img_created), s3) \<Rightarrow>
                              (case release s3 of
                                 Inl err \<Rightarrow> (Raises err, s3)
                               | Inr s4 \<Rightarrow>
                                   (case send_from_directory download_path
                                           (image_file_name (varname @ ''_'' @ time_seg) config
                                              @ ''.png'')
                                           (fs s4) of
                                      Inl err \<Rightarrow> (Raises err, s4)
                                    | Inr sent \<Rightarrow>
                                        (Returns (sent,
                                           response_code (model_created \<or> img_created)), s4))))))))"

text \<open>\<open>multi_model_data\<close>: \<open>img_fs_lock\<close> does not occur in it.\<close>

definition archive_name_of :: "config \<Rightarrow> string \<Rightarrow> string" where
  "archive_name_of config varname =
     run_id config @ ''_'' @ varname @ ''_'' @ scale_suffix_of (colorbar config)"

definition scale_dir_name_of :: "config \<Rightarrow> string" where
  "scale_dir_name_of config = run_id config @ ''_'' @ scale_suffix_of (colorbar config)"

definition multi_model_data ::
  "env \<Rightarrow> string \<Rightarrow> error + config \<Rightarrow> state \<Rightarrow> (path \<times> nat) outcome \<times> state" where
  "multi_model_data e varname body s =
     (case body of
        Inl err \<Rightarrow> (Raises err, s)
      | Inr config \<Rightarrow>
          (case ensure_model_results e config s of
             (Raises err, s1) \<Rightarrow> (Raises err, s1)
           | (Blocks, s1) \<Rightarrow> (Blocks, s1)
           | (Returns (ds_parent, model_created), s1) \<Rightarrow>
               (let archive_path =
                      path_join (path_join ds_parent (scale_dir_name_of config))
                        (archive_name_of config varname);
                    s2 = note_img_op CheckArchive s1
                in
                  (case
                     (if \<not> is_file (fs s2) (archive_path @ ''.zip'') then
                        (case ensure_image_output ds_parent varname None config s2 of
                           (Raises err, s3) \<Rightarrow> (Raises err, s3)
                         | (Blocks, s3) \<Rightarrow> (Blocks, s3)
                         | (Returns (archive_src, img_created), s3) \<Rightarrow>
                             (case make_archive archive_path archive_src
                                     (fs (note_img_op MakeArchive s3)) of
                                Inl err \<Rightarrow> (Raises err, note_img_op MakeArchive s3)
                              | Inr fs' \<Rightarrow>
                                  (Returns img_created, (note_img_op MakeArchive s3)\<lparr>fs := fs'\<rparr>)))
                      else (Returns False, s2))
                   of
                     (Raises err, s4) \<Rightarrow> (Raises err, s4)
                   | (Blocks, s4) \<Rightarrow> (Blocks, s4)
                   | (Returns img_created, s4) \<Rightarrow>
                       (case send_from_directory ds_parent
                               (archive_name_of config varname @ ''.zip'') (fs s4) of
                          Inl err \<Rightarrow> (Raises err, s4)
                        | Inr sent \<Rightarrow>
                            (Returns (sent, response_code (model_created \<or> img_created)),
                             s4))))))"

subsection \<open>The error handlers\<close>

definition newline :: string where
  "newline = [CHR 0x0A]"

definition error_template :: "string \<Rightarrow> string \<Rightarrow> string" where
  "error_template title msg =
     (let head = ''<DOCTYPE html>''
                 @ newline @ ''<head>''
                 @ newline @ ''  <title>'' @ title @ ''</title>''
                 @ newline @ ''</head>'';
          body = ''<body>''
                 @ newline @ ''  <h1>'' @ title @ ''</h1>''
                 @ newline @ ''  <hr>''
                 @ newline @ ''  <p>'' @ msg @ ''</p>''
                 @ newline @ ''</body>''
      in head @ newline @ body)"

text \<open>\<open>handle_invalid_config\<close> takes \<open>str(err)\<close>, \<open>handle_enomem\<close> takes \<open>err.errno\<close>.\<close>

definition handle_invalid_config :: "string \<Rightarrow> string \<times> nat" where
  "handle_invalid_config err = (error_template ''Invalid Configuration'' err, 400)"

definition insufficient_space_msg :: string where
  "insufficient_space_msg =
     ''The server has insufficient disk space to produce output''
     @ '' from a model run, and has failed to either produce a dataset''
     @ '' for model results or to write image files from said results.''
     @ '' Consider placing a request for fewer resources at a time to''
     @ '' lighten the load on server while it tries to free up space.''"

definition failed_disk_io_msg :: string where
  "failed_disk_io_msg =
     ''The server has failed to perform disk IO, most likely due to a''
     @ '' malformed path. Please report this error to project engineers.''"

definition internal_error_msg :: string where
  "internal_error_msg =
     ''We are sorry, but our server is still young and has experienced an''
     @ '' unexpected error. Please report this error to project engineers to''
     @ '' get it patched sooner.''"

definition handle_enomem :: "int option \<Rightarrow> string \<times> nat" where
  "handle_enomem errno =
     (if errno = Some 28 then (error_template ''Insufficient Space'' insufficient_space_msg, 413)
      else (error_template ''Failed Disk IO'' failed_disk_io_msg, 500))"

definition handle_failure :: "error \<Rightarrow> string \<times> nat" where
  "handle_failure err = (error_template ''Internal Error'' internal_error_msg, 500)"

text \<open>
  What Flask answers when a view raises.  A handler registered for the class of the
  exception is called (\<open>InvalidConfigError\<close>, \<open>IOError\<close>).  An HTTP exception is its own
  response, with its own status code, unless a handler is registered for that code (500).
  Every other exception becomes an internal server error, whose handler is the one
  registered for 500.
\<close>

datatype response = Page "string \<times> nat" | Default_page nat

fun error_response :: "error \<Rightarrow> response" where
  "error_response (InvalidConfigError msg) = Page (handle_invalid_config msg)"
| "error_response (IOError errno) = Page (handle_enomem errno)"
| "error_response (HTTPException code) =
     (if code = 500 then Page (handle_failure (HTTPException code)) else Default_page code)"
| "error_response err = Page (handle_failure err)"

fun status_of :: "response \<Rightarrow> nat" where
  "status_of (Page (body, code)) = code"
| "status_of (Default_page code) = code"

subsection \<open>Concurrent calls of \<open>ensure_model_results\<close>\<close>

text \<open>
  The request handlers run in parallel threads.  A call of \<open>ensure_model_results\<close> has two
  steps that another thread can come between: the test \<open>Path(dataset_parent).exists()\<close>,
  and, when the test found nothing, \<open>run.run_model()\<close>.  No lock is taken in between.
  A thread is about to test, about to run the model, or has returned or raised.
\<close>

datatype thread = At_check | At_run | Returned "path \<times> bool" | Raised error

record threads_state =
  shared_fs :: filesystem
  runs :: nat
  threads :: "thread list"

definition thread_step :: "env \<Rightarrow> config \<Rightarrow> nat \<Rightarrow> threads_state \<Rightarrow> threads_state" where
  "thread_step e config i st =
     (let dataset_parent = path_join (OUTPUT_FULL_PATH e) (run_id config) in
      if i < length (threads st) then
        (case threads st ! i of
           At_check \<Rightarrow>
             if \<not> path_exists (shared_fs st) dataset_parent
             then st\<lparr>threads := (threads st)[i := At_run]\<rparr>
             else st\<lparr>threads := (threads st)[i := Returned (dataset_parent, False)]\<rparr>
         | At_run \<Rightarrow>
             (case run_model e config (shared_fs st) of
                (fs', None) \<Rightarrow>
                  st\<lparr>shared_fs := fs', runs := Suc (runs st),
                     threads := (threads st)[i := Returned (dataset_parent, True)]\<rparr>
              | (fs', Some err) \<Rightarrow>
                  st\<lparr>shared_fs := fs', runs := Suc (runs st),
                     threads := (threads st)[i := Raised err]\<rparr>)
         | Returned r \<Rightarrow> st
         | Raised err \<Rightarrow> st)
      else st)"

text \<open>A schedule names the thread that takes each step, in order.\<close>

definition run_schedule :: "env \<Rightarrow> config \<Rightarrow> nat list \<Rightarrow> threads_state \<Rightarrow> threads_state" where
  "run_schedule e config schedule st = fold (thread_step e config) schedule st"




subsection \<open>A reference environment\<close>

text \<open>
  Modelled from the spec: the Simulation Runner (\<open>ModelRun.run_model\<close> of \<open>runner.py\<close>) is
  not among the sources.  Given a configuration it writes the dataset under the location of
  the run id: one directory per run id, containing the dataset file named by the run id.
  This runner never fails.
\<close>

definition spec_run_model :: "path \<Rightarrow> config \<Rightarrow> filesystem \<Rightarrow> filesystem \<times> error option" where
  "spec_run_model out config fsys =
     (fsys(path_join out (run_id config) \<mapsto> Dir,
           path_join (path_join out (run_id config)) (run_id config @ ''.nc'') \<mapsto> File),
      None)"

definition spec_env :: env where
  "spec_env = \<lparr>OUTPUT_FULL_PATH = ''/output/'', run_model = spec_run_model ''/output/''\<rparr>"

text \<open>The configuration of the example scenario: run id \<open>X\<close>, two time segments.\<close>

definition config_X :: config where
  "config_X = \<lparr>run_id = ''X'', colorbar = (''-1'', ''1''), segments = 2\<rparr>"

definition empty_state :: state where
  "empty_state = \<lparr>fs = Map.empty, img_fs_lock = False, model_runs = 0, img_fs_log = []\<rparr>"

text \<open>A store in which the dataset of \<open>config_X\<close> is present already.\<close>

definition cached_state :: state where
  "cached_state =
     empty_state\<lparr>fs := [''/output/X'' \<mapsto> Dir, ''/output/X/X.nc'' \<mapsto> File]\<rparr>"

text \<open>
  A store in which the dataset of \<open>config_X\<close> and the three temperature images are present,
  the archive is not at its place under the color-scale directory, and a file lies where
  \<open>multi_model_data\<close> serves the archive from.
\<close>

definition images_cached_state :: state where
  "images_cached_state =
     empty_state\<lparr>fs :=
       [''/output/X'' \<mapsto> Dir,
        ''/output/X/X.nc'' \<mapsto> File,
        ''/output/X/X_[-1x1]'' \<mapsto> Dir,
        ''/output/X/X_[-1x1]/temperature'' \<mapsto> Dir,
        ''/output/X/X_[-1x1]/temperature/X_temperature_0.png'' \<mapsto> File,
        ''/output/X/X_[-1x1]/temperature/X_temperature_1.png'' \<mapsto> File,
        ''/output/X/X_[-1x1]/temperature/X_temperature_2.png'' \<mapsto> File,
        ''/output/X/X_temperature_[-1x1].zip'' \<mapsto> File]\<rparr>"

text \<open>A store with the directory of run id \<open>X\<close> and no dataset file in it.\<close>

definition half_written_state :: state where
  "half_written_state = empty_state\<lparr>fs := [''/output/X'' \<mapsto> Dir]\<rparr>"

subsection \<open>Notions used by the properties\<close>

definition dataset_parent_of :: "env \<Rightarrow> config \<Rightarrow> path" where
  "dataset_parent_of e config = path_join (OUTPUT_FULL_PATH e) (run_id config)"

definition image_dir_of :: "env \<Rightarrow> config \<Rightarrow> string \<Rightarrow> path" where
  "image_dir_of e config varname =
     path_join (path_join (dataset_parent_of e config)
                  (run_id config @ ''_'' @ scale_suffix_of (colorbar config)))
       varname"

text \<open>
  An image of the variable was newly created between two file systems: an image file of the
  variable, for some time segment, is a file after and was not before.
\<close>

definition new_image :: "env \<Rightarrow> config \<Rightarrow> string \<Rightarrow> filesystem \<Rightarrow> filesystem \<Rightarrow> bool" where
  "new_image e config varname before after =
     (\<exists>k. \<not> is_file before (image_path (image_dir_of e config varname) varname config k)
          \<and> is_file after (image_path (image_dir_of e config varname) varname config k))"





section \<open>Properties of the statistics\<close>

subsection \<open>Arrays without a valid element\<close>

lemma fold_sum_table_zero:
  "list_all (\<lambda>x. sum_table x m = (0, 0)) xs \<Longrightarrow>
   fold (\<lambda>subarray (total, num_valid_elems).
             (case sum_table subarray m of
                (sub_total, sub_valid_cells) \<Rightarrow>
                  (total + sub_total, num_valid_elems + sub_valid_cells))) xs acc = acc"
  by (induction xs arbitrary: acc) (auto split: prod.splits)

lemma sum_table_no_valid:
  "no_valid_element a \<Longrightarrow> sum_table a m = (0, 0)"
proof (induction a)
  case (Scalar c)
  then show ?case by simp
next
  case (Array s xs)
  then have "list_all (\<lambda>x. sum_table x m = (0, 0)) xs"
    by (simp add: list_all_iff)
  then show ?case
    by (simp add: fold_sum_table_zero)
qed

text \<open>
  C10.  For every array without a valid numeric element (every element is \<open>nan\<close>, or the
  array is empty), \<open>mean\<close> and \<open>variance\<close> return \<open>nan\<close>; the division by the zero count
  does not escape as an exception.
\<close>

theorem mean_variance_nan_without_valid_element:
  "no_valid_element data \<Longrightarrow> mean data = Inr Nan \<and> variance data = Inr Nan"
  by (simp add: mean_def variance_def sum_table_no_valid py_truediv_def)

theorem mean_variance_nan_without_valid_element_witness:
  "no_valid_element (Array [] [Scalar Nan, Scalar Nan])
   \<and> mean (Array [] [Scalar Nan, Scalar Nan]) = Inr Nan
   \<and> variance (Array [] [Scalar Nan, Scalar Nan]) = Inr Nan
   \<and> no_valid_element (Array [3] [])
   \<and> mean (Array [3] []) = Inr Nan
   \<and> variance (Array [3] []) = Inr Nan"
  using mean_variance_nan_without_valid_element [of "Array [] [Scalar Nan, Scalar Nan]"]
    mean_variance_nan_without_valid_element [of "Array [3] []"]
  by simp

subsection \<open>The table of a three-dimensional grid\<close>

lemma shape_Nil_iff: "shape x = [] \<longleftrightarrow> (\<exists>c. x = Scalar c)"
  by (cases x) auto

lemma fold_sum_table_scalars:
  "list_all (\<lambda>x. shape x = []) cells \<Longrightarrow>
   fold (\<lambda>subarray (total, num_valid_elems).
             (case sum_table subarray (\<lambda>x. x) of
                (sub_total, sub_valid_cells) \<Rightarrow>
                  (total + sub_total, num_valid_elems + sub_valid_cells))) cells (t, n)
   = (t + sum_list (valid_values cells), n + length (valid_values cells))"
proof (induction cells arbitrary: t n)
  case Nil
  then show ?case by simp
next
  case (Cons x cells)
  then obtain c where x: "x = Scalar c" by (auto simp: shape_Nil_iff)
  from Cons show ?case
    by (cases c) (simp_all add: x)
qed

text \<open>On a one-dimensional slice the code's \<open>mean\<close> is the mean of the valid values.\<close>

lemma mean_slice:
  assumes "list_all (\<lambda>x. shape x = []) cells"
  shows "mean (Array [] cells) = Inr (mean_of_valid cells)"
  using fold_sum_table_scalars[OF assms, of 0 0]
  by (simp add: mean_def mean_of_valid_def py_truediv_def)

lemma sequence_map_Inr:
  "(\<And>x. x \<in> set xs \<Longrightarrow> f x = Inr (g x)) \<Longrightarrow> sequence (map f xs) = Inr (map g xs)"
  by (induction xs) auto

lemma index2_rectangular:
  assumes "rectangular data" "shape data = [T, L, K]" "j < T" "i < L"
  shows "\<exists>cells. index2 data j i = Inr (Array [] cells) \<and> list_all (\<lambda>x. shape x = []) cells"
proof -
  from assms(2) obtain s xs where d: "data = Array s xs" "length xs = T" "s = [L, K]"
    by (cases data) auto
  from assms(1) d assms(3) have r: "shape (xs ! j) = [L, K]" "rectangular (xs ! j)"
    by (auto simp: list_all_length)
  then obtain ys where y: "xs ! j = Array [K] ys" "length ys = L"
    by (cases "xs ! j") auto
  from r y assms(4) have r2: "shape (ys ! i) = [K]" "rectangular (ys ! i)"
    by (auto simp: list_all_length)
  then obtain cells where c: "ys ! i = Array [] cells"
    by (cases "ys ! i") auto
  with r2 have "list_all (\<lambda>x. shape x = []) cells"
    by (auto simp: list_all_iff)
  with d y c assms(3,4) show ?thesis by simp
qed

lemma table_row_rectangular:
  assumes "rectangular data" "shape data = [T, L, K]" "i < L"
  shows "table_row data T i = Inr (map (\<lambda>j. slice_mean data j i) [0..<T])"
  unfolding table_row_def
proof (rule sequence_map_Inr)
  fix j assume "j \<in> set [0..<T]"
  then have "j < T" by simp
  from index2_rectangular[OF assms(1,2) this assms(3)]
  obtain cells where "index2 data j i = Inr (Array [] cells)" "list_all (\<lambda>x. shape x = []) cells"
    by blast
  then show "(case index2 data j i of Inl e \<Rightarrow> Inl e | Inr data_slice \<Rightarrow> mean data_slice)
      = Inr (slice_mean data j i)"
    by (simp add: slice_mean_def mean_slice)
qed

lemma convert_3d:
  assumes "rectangular data" "shape data = [T, L, K]"
  shows "convert_grid_data_to_table data =
           np_array (map (\<lambda>i. map (\<lambda>j. slice_mean data j i) [0..<T]) [0..<L])"
proof -
  from assms(2) obtain s xs where d: "data = Array s xs" "length xs = T" "s = [L, K]"
    by (cases data) auto
  have "sequence (map (table_row data T) [0..<L])
        = Inr (map (\<lambda>i. map (\<lambda>j. slice_mean data j i) [0..<T]) [0..<L])"
    by (rule sequence_map_Inr) (simp add: table_row_rectangular[OF assms])
  with d show ?thesis by simp
qed

lemma np_array_uniform:
  assumes "rows \<noteq> []" "list_all (\<lambda>r. length r = n) rows"
  shows "np_array rows = Inr (Array [n] (map (\<lambda>r. Array [] (map Scalar r)) rows))"
  using assms by (cases rows) (auto simp: np_array_def list_all_iff)

lemma np_array_rows:
  assumes "0 < L"
  shows "np_array (map (\<lambda>i. map (f i) [0..<T]) [0..<L])
         = Inr (Array [T] (map (\<lambda>i. Array [] (map (\<lambda>j. Scalar (f i j)) [0..<T])) [0..<L]))"
proof -
  have "map (\<lambda>i. map (f i) [0..<T]) [0..<L] \<noteq> []"
    using assms by simp
  moreover have "list_all (\<lambda>r. length r = T) (map (\<lambda>i. map (f i) [0..<T]) [0..<L])"
    by (simp add: list_all_iff)
  ultimately show ?thesis
    by (simp add: np_array_uniform comp_def)
qed

lemma convert_3d_table:
  assumes "rectangular data" "shape data = [T, L, K]" "0 < L"
  shows "\<exists>table. convert_grid_data_to_table data = Inr table \<and> shape table = [L, T] \<and>
           (\<forall>i<L. \<forall>j<T. \<exists>cells. index2 data j i = Inr (Array [] cells) \<and>
                       index2 table i j = Inr (Scalar (mean_of_valid cells)))"
proof -
  let ?table = "Array [T] (map (\<lambda>i. Array [] (map (\<lambda>j. Scalar (slice_mean data j i)) [0..<T])) [0..<L])"
  have c: "convert_grid_data_to_table data = Inr ?table"
    by (simp add: convert_3d[OF assms(1,2)] np_array_rows[OF assms(3)])
  have s: "shape ?table = [L, T]" by simp
  have e: "\<exists>cells. index2 data j i = Inr (Array [] cells) \<and>
                       index2 ?table i j = Inr (Scalar (mean_of_valid cells))"
    if "i < L" "j < T" for i j
  proof -
    from index2_rectangular[OF assms(1,2) that(2,1)]
    obtain cells where ce: "index2 data j i = Inr (Array [] cells)" by blast
    then have "slice_mean data j i = mean_of_valid cells" by (simp add: slice_mean_def)
    with that ce show ?thesis by simp
  qed
  from c s e show ?thesis by blast
qed

lemma convert_2d: "ndim data = 2 \<Longrightarrow> convert_grid_data_to_table data = Inr data"
  by (cases data) (auto simp: ndim_def)

lemma convert_3d_no_latitude:
  assumes "rectangular data" "shape data = [T, 0, K]"
  shows "convert_grid_data_to_table data = Inr (Array [] [])"
  by (simp add: convert_3d[OF assms] np_array_def)

text \<open>
  C9, as stated, fails where the latitude axis is empty.  For the array of shape \<open>(1, 0, 1)\<close>
  the outer loop has no iteration, \<open>table\<close> stays \<open>[]\<close>, and \<open>np.array([])\<close> is the
  one-dimensional array of shape \<open>(0,)\<close>, not an array of shape \<open>(lat, time) = (0, 1)\<close>.
\<close>

theorem table_of_empty_latitude_axis_is_one_dimensional:
  "rectangular (Array [0, 1] [Array [1] []])
   \<and> shape (Array [0, 1] [Array [1] []]) = [1, 0, 1]
   \<and> convert_grid_data_to_table (Array [0, 1] [Array [1] []]) = Inr (Array [] [])
   \<and> shape (Array [] []) = [0]
   \<and> shape (Array [] []) \<noteq> [0, 1]"
  by (simp add: table_row_def np_array_def)

text \<open>
  C9, amended.  \<open>convert_grid_data_to_table\<close> returns a two-dimensional input unchanged.  For
  every three-dimensional input of shape \<open>(time, lat, lon)\<close> with at least one latitude band
  it returns an array of shape \<open>(lat, time)\<close> whose entry at \<open>(i, j)\<close> is the mean of the
  valid (non-\<open>nan\<close>) values of \<open>data[j, i, :]\<close>, \<open>nan\<close> when there is none.  With no latitude
  band the result is the empty one-dimensional array.
\<close>

theorem convert_grid_data_to_table_shape_and_means:
  "(ndim flat = 2 \<longrightarrow> convert_grid_data_to_table flat = Inr flat)
   \<and> (rectangular data \<and> shape data = [n_time, n_lat, n_lon] \<and> 0 < n_lat \<longrightarrow>
        (\<exists>table. convert_grid_data_to_table data = Inr table
           \<and> shape table = [n_lat, n_time]
           \<and> (\<forall>i<n_lat. \<forall>j<n_time. \<exists>cells.
                 index2 data j i = Inr (Array [] cells)
                 \<and> index2 table i j = Inr (Scalar (mean_of_valid cells)))))
   \<and> (rectangular bare \<and> shape bare = [m_time, 0, m_lon] \<longrightarrow>
        convert_grid_data_to_table bare = Inr (Array [] []))"
  using convert_2d convert_3d_table convert_3d_no_latitude by blast

theorem convert_grid_data_to_table_shape_and_means_witness:
  "ndim (Array [1] [Array [] [Scalar Nan]]) = 2
   \<and> convert_grid_data_to_table (Array [1] [Array [] [Scalar Nan]])
       = Inr (Array [1] [Array [] [Scalar Nan]])
   \<and> rectangular (Array [1, 2] [Array [2] [Array [] [Scalar (Number 1), Scalar (Number 3)]]])
   \<and> shape (Array [1, 2] [Array [2] [Array [] [Scalar (Number 1), Scalar (Number 3)]]]) = [1, 1, 2]
   \<and> (\<exists>table. convert_grid_data_to_table
                 (Array [1, 2] [Array [2] [Array [] [Scalar (Number 1), Scalar (Number 3)]]])
               = Inr table
         \<and> shape table = [1, 1]
         \<and> index2 table 0 0 = Inr (Scalar (mean_of_valid [Scalar (Number 1), Scalar (Number 3)])))
   \<and> mean_of_valid [Scalar (Number 1), Scalar (Number 3)] = Number 2
   \<and> rectangular (Array [0, 1] [Array [1] []])
   \<and> shape (Array [0, 1] [Array [1] []]) = [1, 0, 1]
   \<and> convert_grid_data_to_table (Array [0, 1] [Array [1] []]) = Inr (Array [] [])"
proof -
  let ?flat = "Array [1] [Array [] [Scalar Nan]]"
  let ?data = "Array [1, 2] [Array [2] [Array [] [Scalar (Number 1), Scalar (Number 3)]]]"
  let ?bare = "Array [0, 1] [Array [1] []]"
  have h1: "ndim ?flat = 2" by (simp add: ndim_def)
  have h2: "rectangular ?data \<and> shape ?data = [1, 1, 2] \<and> (0::nat) < 1" by simp
  have h3: "rectangular ?bare \<and> shape ?bare = [1, 0, 1]" by simp
  have h4: "index2 ?data 0 0 = Inr (Array [] [Scalar (Number 1), Scalar (Number 3)])" by simp
  have h5: "mean_of_valid [Scalar (Number 1), Scalar (Number 3)] = Number 2"
    by (simp add: mean_of_valid_def)
  from convert_grid_data_to_table_shape_and_means [of ?flat ?data 1 1 2 ?bare 1 1] h1 h2 h3
  have c1: "convert_grid_data_to_table ?flat = Inr ?flat"
    and c2: "\<exists>table. convert_grid_data_to_table ?data = Inr table
           \<and> shape table = [1, 1]
           \<and> (\<forall>i<1. \<forall>j<1. \<exists>cells.
                 index2 ?data j i = Inr (Array [] cells)
                 \<and> index2 table i j = Inr (Scalar (mean_of_valid cells)))"
    and c3: "convert_grid_data_to_table ?bare = Inr (Array [] [])"
    by blast+
  from c2 h4 have c2': "\<exists>table. convert_grid_data_to_table ?data = Inr table
         \<and> shape table = [1, 1]
         \<and> index2 table 0 0 = Inr (Scalar (mean_of_valid [Scalar (Number 1), Scalar (Number 3)]))"
    by (metis Inr_inject ndarray.inject(2) less_numeral_extra(1))
  from h1 h2 h3 h5 c1 c2' c3 show ?thesis by blast
qed

section \<open>Properties of the artifact cache\<close>

subsection \<open>Concurrent calls of \<open>ensure_model_results\<close>\<close>

text \<open>
  The two steps of one thread, taken without interruption, are a call of
  \<open>ensure_model_results\<close>.
\<close>

lemma thread_alone_is_ensure_model_results:
  "run_schedule e config [0, 0] \<lparr>shared_fs = fs s, runs = model_runs s, threads = [At_check]\<rparr>
   = (case ensure_model_results e config s of
        (r, s') \<Rightarrow>
          \<lparr>shared_fs = fs s', runs = model_runs s',
           threads = [case r of Returns v \<Rightarrow> Returned v | Raises err \<Rightarrow> Raised err
                      | Blocks \<Rightarrow> At_check]\<rparr>)"
  by (auto simp: run_schedule_def thread_step_def ensure_model_results_def Let_def
      split: prod.splits option.splits)








lemma length_thread_step [simp]:
  "length (threads (thread_step e config i st)) = length (threads st)"
  by (auto simp: thread_step_def Let_def split: thread.splits prod.splits option.splits)












subsection \<open>Sequential calls of \<open>ensure_model_results\<close>\<close>

lemma ensure_model_results_cases:
  assumes "ensure_model_results e config s = (Returns (p, created), s1)"
  shows "p = dataset_parent_of e config"
    and "created \<longleftrightarrow> \<not> path_exists (fs s) p"
    and "created \<Longrightarrow> model_runs s1 = Suc (model_runs s) \<and> fs s1 = fst (run_model e config (fs s)) \<and> snd (run_model e config (fs s)) = None"
    and "\<not> created \<Longrightarrow> s1 = s"
    and "img_fs_lock s1 = img_fs_lock s" and "img_fs_log s1 = img_fs_log s"
  using assms
  by (auto simp: ensure_model_results_def dataset_parent_of_def Let_def split: if_splits prod.splits option.splits)


text \<open>
  C2, as stated, fails on a store that holds the dataset already: both calls are cache hits,
  and the Simulation Runner is not invoked once but not at all.
\<close>

theorem cached_dataset_is_never_run:
  "fst (ensure_model_results spec_env config_X cached_state) = Returns (''/output/X'', False)
   \<and> fst (ensure_model_results spec_env config_X
             (snd (ensure_model_results spec_env config_X cached_state)))
       = Returns (''/output/X'', False)
   \<and> model_runs (snd (ensure_model_results spec_env config_X
                         (snd (ensure_model_results spec_env config_X cached_state))))
       = model_runs cached_state"
  by code_simp

text \<open>
  C2, amended.  For every configuration, when the runner leaves the dataset-parent path in
  place after a run and the first of two calls in sequence returns, the second call returns
  \<open>created = False\<close> and the same dataset-parent path, and invokes nothing; the first call
  invokes the Simulation Runner exactly once when the path was absent before it (and
  returns \<open>created = True\<close>), and not at all when it was present.
\<close>

theorem second_call_is_cache_hit:
  assumes contract: "\<And>f f'. run_model e config f = (f', None) \<Longrightarrow>
             path_exists f' (path_join (OUTPUT_FULL_PATH e) (run_id config))"
    and first: "ensure_model_results e config s = (Returns (p, created), s1)"
  shows "ensure_model_results e config s1 = (Returns (p, False), s1)
         \<and> model_runs s1 = model_runs s + (if path_exists (fs s) p then 0 else 1)
         \<and> created = (\<not> path_exists (fs s) p)"
proof -
  note c = ensure_model_results_cases [OF first]
  have ex: "path_exists (fs s1) p"
  proof (cases created)
    case True
    with c(3) have "run_model e config (fs s) = (fs s1, None)"
      by (metis prod.collapse)
    from contract [OF this] c(1) show ?thesis by (simp add: dataset_parent_of_def)
  next
    case False
    with c(2,4) show ?thesis by simp
  qed
  then have "ensure_model_results e config s1 = (Returns (p, False), s1)"
    using c(1) by (simp add: ensure_model_results_def dataset_parent_of_def)
  moreover have "model_runs s1 = model_runs s + (if path_exists (fs s) p then 0 else 1)"
    using c(2,3,4) by (cases created) auto
  ultimately show ?thesis using c(2) by simp
qed

theorem second_call_is_cache_hit_witness:
  "ensure_model_results spec_env config_X empty_state
     = (Returns (''/output/X'', True), snd (ensure_model_results spec_env config_X empty_state))
   \<and> ensure_model_results spec_env config_X
         (snd (ensure_model_results spec_env config_X empty_state))
       = (Returns (''/output/X'', False), snd (ensure_model_results spec_env config_X empty_state))
   \<and> model_runs (snd (ensure_model_results spec_env config_X empty_state)) = 1"
proof -
  have contract: "path_exists f' (path_join (OUTPUT_FULL_PATH spec_env) (run_id config_X))"
    if "run_model spec_env config_X f = (f', None)" for f f'
    using that by (auto simp: spec_env_def spec_run_model_def path_exists_def)
  have first: "ensure_model_results spec_env config_X empty_state
     = (Returns (''/output/X'', True), snd (ensure_model_results spec_env config_X empty_state))"
    by (simp add: ensure_model_results_def spec_env_def spec_run_model_def config_X_def
        empty_state_def path_exists_def path_join_def)
  have absent: "\<not> path_exists (fs empty_state) ''/output/X''"
    by (simp add: empty_state_def path_exists_def)
  have zero: "model_runs empty_state = 0"
    by (simp add: empty_state_def)
  from second_call_is_cache_hit [of spec_env config_X empty_state "''/output/X''" True, OF contract first]
    absent zero first
  show ?thesis by simp
qed

subsection \<open>The archive endpoint\<close>

text \<open>
  C3.  On an empty store \<open>multi_model_data\<close> for \<open>temperature\<close> and run id \<open>X\<close> runs the
  model, renders the images and writes the archive \<open>/output/X/X_[-1x1]/X_temperature_[-1x1].zip\<close>,
  under the color-scale directory.  It then serves \<open>/output/X/X_temperature_[-1x1].zip\<close>,
  where no file is: \<open>send_from_directory\<close> raises \<open>NotFound\<close>.
\<close>

theorem archive_is_not_where_it_is_served_from:
  "path_join (path_join ''/output/X'' (scale_dir_name_of config_X))
       (archive_name_of config_X ''temperature'') @ ''.zip''
     = ''/output/X/X_[-1x1]/X_temperature_[-1x1].zip''
   \<and> path_join ''/output/X'' (archive_name_of config_X ''temperature'' @ ''.zip'')
     = ''/output/X/X_temperature_[-1x1].zip''
   \<and> fst (multi_model_data spec_env ''temperature'' (Inr config_X) empty_state)
       = Raises (HTTPException 404)
   \<and> is_file (fs (snd (multi_model_data spec_env ''temperature'' (Inr config_X) empty_state)))
        ''/output/X/X_[-1x1]/X_temperature_[-1x1].zip''
   \<and> \<not> is_file (fs (snd (multi_model_data spec_env ''temperature'' (Inr config_X) empty_state)))
          ''/output/X/X_temperature_[-1x1].zip''"
  by code_simp

subsection \<open>The image guard\<close>

text \<open>
  C4.  \<open>single_model_data\<close> with the time segment \<open>abc\<close> acquires \<open>img_fs_lock\<close>, then
  \<open>int(time_seg)\<close> raises \<open>ValueError\<close> and the function is left with the lock held; the
  same happens when \<open>ensure_image_output\<close> raises because the directory of the run id has no
  dataset file.  The next request for an image waits for the lock for ever.
\<close>

theorem lock_stays_held_after_exception:
  "fst (single_model_data spec_env ''temperature'' ''abc'' (Inr config_X) empty_state)
     = Raises ValueError
   \<and> img_fs_lock (snd (single_model_data spec_env ''temperature'' ''abc'' (Inr config_X)
                          empty_state))
   \<and> fst (single_model_data spec_env ''temperature'' ''2'' (Inr config_X) half_written_state)
       = Raises (IOError (Some 2))
   \<and> img_fs_lock (snd (single_model_data spec_env ''temperature'' ''2'' (Inr config_X)
                          half_written_state))
   \<and> fst (single_model_data spec_env ''temperature'' ''2'' (Inr config_X)
             (snd (single_model_data spec_env ''temperature'' ''abc'' (Inr config_X)
                     empty_state)))
       = Blocks"
  by code_simp

text \<open>
  C5.  \<open>multi_model_data\<close> tests for the archive, renders the images and writes the archive
  with \<open>img_fs_lock\<close> free at each of the three operations, on an empty store and on a store
  with the images present; \<open>single_model_data\<close> renders with the lock held.
\<close>

theorem multi_model_data_works_without_guard:
  "\<not> img_fs_lock empty_state
   \<and> img_fs_log (snd (multi_model_data spec_env ''temperature'' (Inr config_X) empty_state))
       = [(CheckArchive, False), (EnsureImages, False), (MakeArchive, False)]
   \<and> img_fs_log (snd (multi_model_data spec_env ''temperature'' (Inr config_X)
                         images_cached_state))
       = [(CheckArchive, False), (EnsureImages, False), (MakeArchive, False)]
   \<and> img_fs_log (snd (single_model_data spec_env ''temperature'' ''2'' (Inr config_X)
                         empty_state))
       = [(EnsureImages, True)]"
  by code_simp

subsection \<open>\<open>ensure_image_output\<close> and the dataset\<close>

text \<open>
  C6.  \<open>ensure_image_output\<close> never invokes the Simulation Runner: the number of model runs
  is the same after it as before.  Called on a dataset-parent path in which the dataset does
  not exist, it raises, and the file system is as it was: no dataset is created.
\<close>

theorem ensure_image_output_never_runs_model:
  "ensure_image_output ds_parent var_name time_seg config s = (r, s') \<Longrightarrow>
     model_runs s' = model_runs s
     \<and> (\<not> is_file (fs s) (path_join ds_parent (run_id config @ ''.nc'')) \<longrightarrow>
          (\<exists>err. r = Raises err) \<and> fs s' = fs s)"
  by (auto simp: ensure_image_output_def note_img_op_def save_from_dataset_def
      split: sum.splits prod.splits)

theorem ensure_image_output_never_runs_model_witness:
  "ensure_image_output ''/output/X'' ''temperature'' None config_X empty_state
     = (Raises (IOError (Some 2)), note_img_op EnsureImages empty_state)
   \<and> model_runs (note_img_op EnsureImages empty_state) = model_runs empty_state
   \<and> \<not> is_file (fs empty_state) (path_join ''/output/X'' (run_id config_X @ ''.nc''))
   \<and> fs (note_img_op EnsureImages empty_state) = fs empty_state"
proof -
  have h: "ensure_image_output ''/output/X'' ''temperature'' None config_X empty_state
     = (Raises (IOError (Some 2)), note_img_op EnsureImages empty_state)"
    by (simp add: ensure_image_output_def save_from_dataset_def note_img_op_def empty_state_def
        is_file_def config_X_def)
  have n: "\<not> is_file (fs empty_state) (path_join ''/output/X'' (run_id config_X @ ''.nc''))"
    by (simp add: empty_state_def is_file_def)
  from ensure_image_output_never_runs_model [OF h] n h show ?thesis by blast
qed

subsection \<open>The error handlers\<close>

text \<open>
  C7.  An \<open>IOError\<close> with \<open>errno\<close> 28 is answered with the page for insufficient space and
  status 413; every other \<open>IOError\<close> with the page for failed disk IO and status 500, a
  different response.  Every error that is neither an \<open>InvalidConfigError\<close> nor an
  \<open>IOError\<close> nor an HTTP exception is answered with status 500 and one fixed page, the same
  for every error: nothing in it derives from the error.
\<close>

theorem error_classification:
  "error_response (IOError (Some 28))
     = Page (error_template ''Insufficient Space'' insufficient_space_msg, 413)
   \<and> (errno \<noteq> Some 28 \<longrightarrow>
        error_response (IOError errno)
          = Page (error_template ''Failed Disk IO'' failed_disk_io_msg, 500)
        \<and> error_response (IOError errno) \<noteq> error_response (IOError (Some 28)))
   \<and> ((\<forall>msg. err \<noteq> InvalidConfigError msg) \<and> (\<forall>n. err \<noteq> IOError n)
        \<and> (\<forall>code. err \<noteq> HTTPException code) \<longrightarrow>
        error_response err = Page (error_template ''Internal Error'' internal_error_msg, 500)
        \<and> error_response err = Page (handle_failure other))"
  by (cases err) (simp_all add: handle_enomem_def handle_failure_def)

theorem error_classification_witness:
  "error_response (IOError (Some 28))
     = Page (error_template ''Insufficient Space'' insufficient_space_msg, 413)
   \<and> Some 2 \<noteq> Some (28::int)
   \<and> error_response (IOError (Some 2))
       = Page (error_template ''Failed Disk IO'' failed_disk_io_msg, 500)
   \<and> error_response (IOError (Some 2)) \<noteq> error_response (IOError (Some 28))
   \<and> error_response ValueError = Page (error_template ''Internal Error'' internal_error_msg, 500)
   \<and> error_response ValueError = Page (handle_failure TypeError)"
proof -
  have h1: "Some 2 \<noteq> Some (28::int)" by simp
  have h2: "(\<forall>msg. ValueError \<noteq> InvalidConfigError msg) \<and> (\<forall>n. ValueError \<noteq> IOError n)
        \<and> (\<forall>code. ValueError \<noteq> HTTPException code)" by simp
  from error_classification [of "Some 2" ValueError TypeError] h1 h2 show ?thesis by blast
qed

subsection \<open>The status code of a response\<close>

lemma is_file_mkdir_exist_ok [simp]: "is_file (mkdir_exist_ok f q) p = is_file f p"
  by (auto simp: mkdir_exist_ok_def is_file_def)

lemma is_file_fold_files:
  "is_file (fold (\<lambda>k f. f(g k \<mapsto> File)) ks f0) p \<longleftrightarrow> is_file f0 p \<or> p \<in> g ` set ks"
  by (induction ks arbitrary: f0) (auto simp: is_file_def)

lemma fst_get_image_directory:
  "fst (get_image_directory ds rid v cb create f)
     = path_join (path_join ds (rid @ ''_'' @ scale_suffix_of cb)) v"
  by (simp add: get_image_directory_def Let_def)

lemma save_from_dataset_Inr:
  assumes "save_from_dataset ds v ts c f = Inr (created, f')"
  defines "d \<equiv> path_join (path_join ds (run_id c @ ''_'' @ scale_suffix_of (colorbar c))) v"
  shows "created \<longleftrightarrow> (\<exists>k \<in> set (render_targets ts c). \<not> is_file f (image_path d v c k))"
    and "is_file f' p \<longleftrightarrow>
           is_file f p \<or> (\<exists>k \<in> set (render_targets ts c). p = image_path d v c k)"
proof -
  from assms(1) have ds: "is_file f (path_join ds (run_id c @ ''.nc''))"
    by (auto simp: save_from_dataset_def split: if_splits)
  let ?f1 = "mkdir_exist_ok
               (mkdir_exist_ok f (path_join ds (run_id c @ ''_'' @ scale_suffix_of (colorbar c)))) d"
  let ?missing = "filter (\<lambda>k. \<not> is_file ?f1 (image_path d v c k)) (render_targets ts c)"
  from assms(1) ds have cr: "created = (?missing \<noteq> [])"
    and f': "f' = fold (\<lambda>k f. f(image_path d v c k \<mapsto> File)) ?missing ?f1"
    by (auto simp: save_from_dataset_def get_image_directory_def Let_def d_def)
  from cr show "created \<longleftrightarrow> (\<exists>k \<in> set (render_targets ts c). \<not> is_file f (image_path d v c k))"
    by (auto simp: filter_empty_conv)
  from f' show "is_file f' p \<longleftrightarrow>
           is_file f p \<or> (\<exists>k \<in> set (render_targets ts c). p = image_path d v c k)"
    by (auto simp: is_file_fold_files)
qed

lemma ensure_image_output_Returns:
  assumes "ensure_image_output ds v ts c s = (Returns (dir, created), s')"
  shows "save_from_dataset ds v ts c (fs s) = Inr (created, fs s')"
    and "dir = path_join (path_join ds (run_id c @ ''_'' @ scale_suffix_of (colorbar c))) v"
    and "model_runs s' = model_runs s" and "img_fs_lock s' = img_fs_lock s"
  using assms
  by (auto simp: ensure_image_output_def note_img_op_def fst_get_image_directory
      split: sum.splits prod.splits)

lemma rendered_new_image:
  assumes "save_from_dataset (dataset_parent_of e c) v ts c f = Inr (created, f')"
  shows "new_image e c v f f' \<longleftrightarrow> created"
proof
  assume "new_image e c v f f'"
  then obtain k where k: "\<not> is_file f (image_path (image_dir_of e c v) v c k)"
    "is_file f' (image_path (image_dir_of e c v) v c k)"
    by (auto simp: new_image_def)
  with save_from_dataset_Inr(2) [OF assms] obtain k' where
    "k' \<in> set (render_targets ts c)"
    "image_path (image_dir_of e c v) v c k = image_path (image_dir_of e c v) v c k'"
    by (auto simp: image_dir_of_def)
  with k(1) save_from_dataset_Inr(1) [OF assms] show created
    by (auto simp: image_dir_of_def)
next
  assume created
  with save_from_dataset_Inr(1) [OF assms] obtain k where
    k: "k \<in> set (render_targets ts c)" "\<not> is_file f (image_path (image_dir_of e c v) v c k)"
    by (auto simp: image_dir_of_def)
  with save_from_dataset_Inr(2) [OF assms] have "is_file f' (image_path (image_dir_of e c v) v c k)"
    by (auto simp: image_dir_of_def)
  with k(2) show "new_image e c v f f'"
    by (auto simp: new_image_def)
qed

text \<open>
  The two sibling endpoints do what the claim says, whenever they return a file: the
  dataset endpoint answers 201 exactly when the Simulation Runner was invoked, the
  single-image endpoint exactly when the runner was invoked or an image of the variable was
  newly created.
\<close>

lemma scientific_dataset_status:
  assumes "scientific_dataset e (Inr c) s = (Returns (sent, code), s')"
  shows "code = (if model_runs s' \<noteq> model_runs s then 201 else 200)"
proof -
  from assms obtain created where
    m: "ensure_model_results e c s = (Returns (dataset_parent_of e c, created), s')"
    and code: "code = response_code created"
    by (auto simp: scientific_dataset_def dataset_parent_of_def
        split: prod.splits outcome.splits sum.splits
        dest: ensure_model_results_cases(1))
  from ensure_model_results_cases(3,4) [OF m] code show ?thesis
    by (cases created) (auto simp: response_code_def)
qed

lemma single_model_data_Returns:
  assumes "single_model_data e v ts (Inr c) s = (Returns (sent, code), s')"
  obtains created1 s1 k dir created2 s3 where
    "ensure_model_results e c s = (Returns (dataset_parent_of e c, created1), s1)"
    "ensure_image_output (dataset_parent_of e c) v (Some k) c (s1\<lparr>img_fs_lock := True\<rparr>)
       = (Returns (dir, created2), s3)"
    "fs s' = fs s3" "model_runs s' = model_runs s3"
    "code = response_code (created1 \<or> created2)"
proof -
  from assms obtain p created1 s1 where
    m: "ensure_model_results e c s = (Returns (p, created1), s1)"
    by (auto simp: single_model_data_def split: prod.splits outcome.splits)
  note p = ensure_model_results_cases(1) [OF m]
  from assms m obtain k dir created2 s3 where
    "ensure_image_output p v (Some k) c (s1\<lparr>img_fs_lock := True\<rparr>) = (Returns (dir, created2), s3)"
    "fs s' = fs s3" "model_runs s' = model_runs s3"
    "code = response_code (created1 \<or> created2)"
    by (auto simp: single_model_data_def acquire_def release_def
        split: prod.splits outcome.splits sum.splits option.splits if_splits)
  with m p that show ?thesis by simp
qed

lemma single_model_data_status:
  assumes "single_model_data e v ts (Inr c) s = (Returns (sent, code), s')"
  shows "code = (if model_runs s' \<noteq> model_runs s \<or> new_image e c v (fs s) (fs s')
                 then 201 else 200)"
proof -
  from assms obtain created1 s1 k dir created2 s3 where
    m: "ensure_model_results e c s = (Returns (dataset_parent_of e c, created1), s1)"
    and i: "ensure_image_output (dataset_parent_of e c) v (Some k) c (s1\<lparr>img_fs_lock := True\<rparr>)
       = (Returns (dir, created2), s3)"
    and eq: "fs s' = fs s3" "model_runs s' = model_runs s3"
    and code: "code = response_code (created1 \<or> created2)"
    by (rule single_model_data_Returns)
  note io = ensure_image_output_Returns [OF i]
  from io(1) have r: "new_image e c v (fs s1) (fs s3) \<longleftrightarrow> created2"
    by (simp add: rendered_new_image)
  show ?thesis
  proof (cases created1)
    case True
    with ensure_model_results_cases(3) [OF m] io(3) eq code show ?thesis
      by (simp add: response_code_def)
  next
    case False
    with ensure_model_results_cases(4) [OF m] have "s1 = s" by simp
    with False r io(3) eq code show ?thesis
      by (simp add: response_code_def)
  qed
qed

text \<open>
  C8.  The archive endpoint does not: on an empty store \<open>multi_model_data\<close> for
  \<open>temperature\<close> and run id \<open>X\<close> invokes the Simulation Runner and newly creates the
  dataset, the three images and the archive, and the request ends in \<open>NotFound\<close>, answered
  with status 404 and not 201; the same request again, every artifact now cached, ends in
  \<open>NotFound\<close> too and not in 200.  On the store with the dataset cached, the single-image
  endpoint newly renders segment 2 and answers 201, and answers 200 when asked again.
\<close>

theorem archive_request_creating_artifacts_is_answered_404:
  "model_runs (snd (multi_model_data spec_env ''temperature'' (Inr config_X) empty_state))
     = Suc (model_runs empty_state)
   \<and> \<not> is_file (fs empty_state) ''/output/X/X.nc''
   \<and> is_file (fs (snd (multi_model_data spec_env ''temperature'' (Inr config_X) empty_state)))
        ''/output/X/X.nc''
   \<and> \<not> is_file (fs empty_state) ''/output/X/X_[-1x1]/temperature/X_temperature_0.png''
   \<and> is_file (fs (snd (multi_model_data spec_env ''temperature'' (Inr config_X) empty_state)))
        ''/output/X/X_[-1x1]/temperature/X_temperature_0.png''
   \<and> is_file (fs (snd (multi_model_data spec_env ''temperature'' (Inr config_X) empty_state)))
        ''/output/X/X_[-1x1]/temperature/X_temperature_1.png''
   \<and> is_file (fs (snd (multi_model_data spec_env ''temperature'' (Inr config_X) empty_state)))
        ''/output/X/X_[-1x1]/temperature/X_temperature_2.png''
   \<and> \<not> is_file (fs empty_state) ''/output/X/X_[-1x1]/X_temperature_[-1x1].zip''
   \<and> is_file (fs (snd (multi_model_data spec_env ''temperature'' (Inr config_X) empty_state)))
        ''/output/X/X_[-1x1]/X_temperature_[-1x1].zip''
   \<and> fst (multi_model_data spec_env ''temperature'' (Inr config_X) empty_state)
       = Raises (HTTPException 404)
   \<and> error_response (HTTPException 404) = Default_page 404
   \<and> status_of (error_response (HTTPException 404)) = 404
   \<and> fst (multi_model_data spec_env ''temperature'' (Inr config_X)
             (snd (multi_model_data spec_env ''temperature'' (Inr config_X) empty_state)))
       = Raises (HTTPException 404)
   \<and> fst (single_model_data spec_env ''temperature'' ''2'' (Inr config_X) cached_state)
       = Returns (''/output/X/X_[-1x1]/temperature/X_temperature_2.png'', 201)
   \<and> fst (single_model_data spec_env ''temperature'' ''2'' (Inr config_X)
             (snd (single_model_data spec_env ''temperature'' ''2'' (Inr config_X) cached_state)))
       = Returns (''/output/X/X_[-1x1]/temperature/X_temperature_2.png'', 200)"
  by code_simp

end
